theory Spec2Isabelle
  imports Main "HOL-Library.AList" "HOL-Library.Char_ord" "HOL-Library.List_Lexorder"
begin

section \<open>Python values, dictionaries and rows\<close>

text \<open>
  The module \<^verbatim>\<open>distkeras/distributed.py\<close> works on rows of a Spark data frame. A row is
  a tuple with field names; a field holds a number, a vector or another opaque object
  (\<open>Atom\<close>), a string, a nested row, a list or a dictionary.
\<close>

datatype 'v pyval =
    Atom 'v
  | Str string
  | RowV "(string \<times> 'v pyval) list"
  | ListV "'v pyval list"
  | DictV "('v pyval \<times> 'v pyval) list"

type_synonym 'v row = "(string \<times> 'v pyval) list"

datatype error =
    WeightShapeError
  | RowValueError string
  | BroadcastError
  | IllegalArgumentError

text \<open>
  A Python dictionary is an association list with one entry per key. Storing a
  sequence of entries one after the other lets a later entry overwrite an earlier one
  with the same key; \<^verbatim>\<open>dict(pairs)\<close> stores the pairs into the empty dictionary.
\<close>

definition store_all :: "('k \<times> 'g) list \<Rightarrow> ('k \<times> 'g) list \<Rightarrow> ('k \<times> 'g) list" where
  "store_all al reqs = foldl (\<lambda>al data. AList.update (fst data) (snd data) al) al reqs"

definition dict :: "('k \<times> 'g) list \<Rightarrow> ('k \<times> 'g) list" where
  "dict pairs = store_all [] pairs"

text \<open>
  \<^verbatim>\<open>row[item]\<close> for a field name: the first field of that name, \<^verbatim>\<open>ValueError\<close> when
  there is none.
\<close>

definition row_item :: "'v row \<Rightarrow> string \<Rightarrow> error + 'v pyval" where
  "row_item self item =
     (case map_of self item of None \<Rightarrow> Inl (RowValueError item) | Some v \<Rightarrow> Inr v)"

text \<open>
  \<^verbatim>\<open>Row.asDict(recursive)\<close>. With \<^verbatim>\<open>recursive=True\<close> every value goes through the
  local function \<^verbatim>\<open>conv\<close>, which turns a nested row into a dictionary, also inside
  lists and inside the values of dictionaries.
\<close>

primrec conv :: "'v pyval \<Rightarrow> 'v pyval" where
  "conv (Atom a) = Atom a"
| "conv (Str s) = Str s"
| "conv (RowV fs) = DictV (dict (map (map_prod Str conv) fs))"
| "conv (ListV xs) = ListV (map conv xs)"
| "conv (DictV kvs) = DictV (dict (map (map_prod id conv) kvs))"

definition asDict :: "'v row \<Rightarrow> bool \<Rightarrow> (string \<times> 'v pyval) list" where
  "asDict self recursive =
     (if recursive then dict (zip (map fst self) (map (conv \<circ> snd) self))
      else dict (zip (map fst self) (map snd self)))"

text \<open>
  \<^verbatim>\<open>Row(**kwargs)\<close>: the field names are the sorted keys, each with its value. The
  names are keys of \<open>kwargs\<close>, so the lookup finds them.
\<close>

definition Row_kwargs :: "(string \<times> 'v pyval) list \<Rightarrow> 'v row" where
  "Row_kwargs kwargs =
     (let names = sort (map fst kwargs)
      in map (\<lambda>n. (n, the (map_of kwargs n))) names)"

definition new_dataframe_row :: "'v row \<Rightarrow> string \<Rightarrow> 'v pyval \<Rightarrow> 'v row" where
  "new_dataframe_row old_row column_name column_value =
     (let d = asDict old_row True;
          d = AList.update column_name column_value d;
          new_row = Row_kwargs (dict d)
      in new_row)"

text \<open>A value that holds no row at any depth, and whose dictionaries have one entry per key.\<close>

primrec plain :: "'v pyval \<Rightarrow> bool" where
  "plain (Atom a) = True"
| "plain (Str s) = True"
| "plain (RowV fs) = False"
| "plain (ListV xs) = list_all id (map plain xs)"
| "plain (DictV kvs) = (distinct (map fst kvs) \<and> list_all snd (map (map_prod id plain) kvs))"

section \<open>Keras models and their snapshots\<close>

text \<open>
  The Keras model is an external collaborator of the module. Only the part of its
  interface that the module calls is described: a model carries an architecture (what
  \<^verbatim>\<open>to_json\<close> returns) and an ordered list of weight tensors (what \<^verbatim>\<open>get_weights\<close>
  returns). A tensor is kept as the flat list of its entries; its shape is fixed by
  the architecture.
\<close>

type_synonym 'a tensor = "'a list"
type_synonym 'a weights = "'a tensor list"

record ('c, 'a) keras_model =
  architecture :: 'c
  model_weights :: "'a weights"

text \<open>
  The library functions whose results the module cannot compute itself: the sizes of
  the weight tensors an architecture expects, the freshly initialised weights of
  \<^verbatim>\<open>model_from_json\<close>, and one epoch of \<^verbatim>\<open>fit\<close> under the configuration the module
  compiles every model with (categorical cross-entropy, RMSprop, accuracy).
\<close>

record ('c, 'a, 'x) keras =
  layer_sizes :: "'c \<Rightarrow> nat list"
  initializer :: "'c \<Rightarrow> 'a weights"
  fit_epoch :: "'c \<Rightarrow> 'a weights \<Rightarrow> 'x list \<Rightarrow> 'x list \<Rightarrow> 'a weights"

definition to_json :: "('c, 'a) keras_model \<Rightarrow> 'c" where
  "to_json m = architecture m"

definition get_weights :: "('c, 'a) keras_model \<Rightarrow> 'a weights" where
  "get_weights m = model_weights m"

definition model_from_json :: "('c, 'a, 'x) keras \<Rightarrow> 'c \<Rightarrow> ('c, 'a) keras_model" where
  "model_from_json K a = \<lparr>architecture = a, model_weights = initializer K a\<rparr>"

text \<open>\<^verbatim>\<open>set_weights\<close> raises when the tensors do not fit the architecture.\<close>

definition set_weights ::
  "('c, 'a, 'x) keras \<Rightarrow> ('c, 'a) keras_model \<Rightarrow> 'a weights \<Rightarrow> error + ('c, 'a) keras_model" where
  "set_weights K m w =
     (if map length w = layer_sizes K (architecture m)
      then Inr (m\<lparr>model_weights := w\<rparr>)
      else Inl WeightShapeError)"

text \<open>\<^verbatim>\<open>compile\<close> fixes loss, optimizer and metrics; the weights stay as they are.\<close>

definition compile :: "('c, 'a) keras_model \<Rightarrow> ('c, 'a) keras_model" where
  "compile m = m"

definition fit ::
  "('c, 'a, 'x) keras \<Rightarrow> ('c, 'a) keras_model \<Rightarrow> 'x list \<Rightarrow> 'x list \<Rightarrow> ('c, 'a) keras_model" where
  "fit K m X Y = m\<lparr>model_weights := fit_epoch K (architecture m) (model_weights m) X Y\<rparr>"

text \<open>
  The difference \<^verbatim>\<open>np.asarray(a) - np.asarray(b)\<close> of two weight lists, the array of
  a weight list taken as the sequence of its tensors. Both operands are weights of one
  model in the module, so their shapes agree and the difference is taken entry by
  entry; operands of different shapes are reported as an error.
\<close>

definition np_sub :: "('a::minus) weights \<Rightarrow> 'a weights \<Rightarrow> error + 'a weights" where
  "np_sub a b =
     (if map length a = map length b then Inr (map2 (map2 (-)) a b) else Inl BroadcastError)"

text \<open>The dictionary built by \<^verbatim>\<open>serialize_keras_model\<close>, keys \<^verbatim>\<open>'model'\<close> and \<^verbatim>\<open>'weights'\<close>.\<close>

record ('c, 'a) snapshot =
  d_model :: 'c
  d_weights :: "'a weights"

definition serialize_keras_model :: "('c, 'a) keras_model \<Rightarrow> ('c, 'a) snapshot" where
  "serialize_keras_model m = \<lparr>d_model = to_json m, d_weights = get_weights m\<rparr>"

definition deserialize_keras_model ::
  "('c, 'a, 'x) keras \<Rightarrow> ('c, 'a) snapshot \<Rightarrow> error + ('c, 'a) keras_model" where
  "deserialize_keras_model K d =
     (let architecture = d_model d;
          weights = d_weights d;
          m = model_from_json K architecture
      in set_weights K m weights)"

section \<open>The EASGD coordinator\<close>

text \<open>
  The attributes of class \<^verbatim>\<open>EASGD\<close> that the REST routes read and write. The text
  written by \<^verbatim>\<open>process_gradients\<close> is kept as the list of the iteration numbers it
  printed. \<^verbatim>\<open>Lock\<close> and \<^verbatim>\<open>Process\<close> are used by the class without an import; they are
  taken to be the ones of \<^verbatim>\<open>multiprocessing\<close>.
\<close>

record ('c, 'a) easgd =
  master_model :: "('c, 'a) snapshot"
  features_column :: string
  label_column :: string
  num_workers :: int
  model :: "('c, 'a) keras_model"
  gradients :: "(int \<times> 'a weights) list"
  ready :: bool
  iteration :: int
  printed :: "int list"

text \<open>
  The constructor: \<^verbatim>\<open>Trainer.__init__\<close> keeps the serialized model, \<^verbatim>\<open>reset\<close> sets the
  training attributes.
\<close>

definition EASGD ::
  "('c, 'a, 'x) keras \<Rightarrow> ('c, 'a) keras_model \<Rightarrow> string \<Rightarrow> string \<Rightarrow> int \<Rightarrow> error + ('c, 'a) easgd" where
  "EASGD K keras_model features_col label_col n =
     (let master = serialize_keras_model keras_model
      in case deserialize_keras_model K master of
           Inl e \<Rightarrow> Inl e
         | Inr m \<Rightarrow>
             Inr \<lparr>master_model = master, features_column = features_col,
                  label_column = label_col, num_workers = n, model = m,
                  gradients = [], ready = False, iteration = 0, printed = []\<rparr>)"

text \<open>Both accessors run their statement inside \<^verbatim>\<open>with self.mutex\<close>.\<close>

definition set_ready :: "('c, 'a) easgd \<Rightarrow> bool \<Rightarrow> ('c, 'a) easgd" where
  "set_ready self state = self\<lparr>ready := state\<rparr>"

definition get_ready :: "('c, 'a) easgd \<Rightarrow> bool" where
  "get_ready self = ready self"

definition process_gradients :: "('c, 'a) easgd \<Rightarrow> ('c, 'a) easgd" where
  "process_gradients self = self\<lparr>printed := printed self @ [iteration self]\<rparr>"

text \<open>Route \<^verbatim>\<open>/center_variable\<close>.\<close>

definition center_variable :: "('c, 'a) easgd \<Rightarrow> 'a weights" where
  "center_variable self = get_weights (model self)"

text \<open>
  Route \<^verbatim>\<open>/update\<close>, served without interruption, in two parts: the statements up to
  the test of the number of stored gradients, and the body of the conditional.
\<close>

definition store_gradient :: "('c, 'a) easgd \<Rightarrow> int \<Rightarrow> 'a weights \<Rightarrow> ('c, 'a) easgd" where
  "store_gradient self worker_id gradient =
     (let self = set_ready self False
      in self\<lparr>gradients := AList.update worker_id gradient (gradients self)\<rparr>)"

definition aggregate :: "('c, 'a) easgd \<Rightarrow> ('c, 'a) easgd" where
  "aggregate self =
     (let self = process_gradients self;
          self = self\<lparr>gradients := []\<rparr>;
          self = set_ready self True
      in self\<lparr>iteration := iteration self + 1\<rparr>)"

definition update :: "('c, 'a) easgd \<Rightarrow> int \<times> 'a weights \<Rightarrow> string \<times> ('c, 'a) easgd" where
  "update self data =
     (let gradient = snd data;
          worker_id = fst data;
          self = store_gradient self worker_id gradient
      in if int (length (gradients self)) = num_workers self
         then (''OK'', aggregate self)
         else (''OK'', self))"

text \<open>Route \<^verbatim>\<open>/ready\<close>.\<close>

definition ready_route :: "('c, 'a) easgd \<Rightarrow> bool" where
  "ready_route self = get_ready self"

text \<open>The coordinator after a sequence of \<^verbatim>\<open>/update\<close> requests, served one after the other.\<close>

definition updates :: "('c, 'a) easgd \<Rightarrow> (int \<times> 'a weights) list \<Rightarrow> ('c, 'a) easgd" where
  "updates self reqs = foldl (\<lambda>s data. snd (update s data)) self reqs"

section \<open>The EASGD worker\<close>

record ('c, 'a) easgd_worker =
  worker_model :: "('c, 'a) snapshot"
  worker_features_column :: string
  worker_label_column :: string
  master_host :: string
  master_port :: int
  master_variable :: "'a weights option"
  batch_size :: int
  worker_center_variable :: "'a weights option"

text \<open>
  The attribute \<^verbatim>\<open>center_variable\<close> does not exist before the first fetch; the
  constructor sets \<^verbatim>\<open>master_variable\<close> instead, which no method reads.
\<close>

definition EASGDWorker ::
  "('c, 'a) snapshot \<Rightarrow> string \<Rightarrow> string \<Rightarrow> int \<Rightarrow> ('c, 'a) easgd_worker" where
  "EASGDWorker keras_model features_col label_col batch =
     \<lparr>worker_model = keras_model, worker_features_column = features_col,
      worker_label_column = label_col, master_host = ''127.0.0.1'', master_port = 5000,
      master_variable = None, batch_size = batch, worker_center_variable = None\<rparr>"

text \<open>
  The three calls of the worker to the coordinator. \<^verbatim>\<open>rest_get\<close> and \<^verbatim>\<open>rest_post\<close>
  pickle and unpickle what they carry, so a call is the route applied to the state of
  the coordinator that serves it.
\<close>

definition master_send_gradient ::
  "('c, 'a) easgd_worker \<Rightarrow> int \<Rightarrow> 'a weights \<Rightarrow> ('c, 'a) easgd \<Rightarrow> ('c, 'a) easgd" where
  "master_send_gradient self worker_id gradient s = snd (update s (worker_id, gradient))"

definition master_is_ready :: "('c, 'a) easgd_worker \<Rightarrow> ('c, 'a) easgd \<Rightarrow> bool" where
  "master_is_ready self s = ready_route s"

definition fetch_center_variable ::
  "('c, 'a) easgd_worker \<Rightarrow> ('c, 'a) easgd \<Rightarrow> ('c, 'a) easgd_worker" where
  "fetch_center_variable self s = self\<lparr>worker_center_variable := Some (center_variable s)\<rparr>"

text \<open>The list comprehension \<^verbatim>\<open>[x[name] for x in iterator]\<close>.\<close>

fun column :: "string \<Rightarrow> 'v row list \<Rightarrow> error + 'v pyval list" where
  "column name [] = Inr []"
| "column name (x # iterator) =
     (case row_item x name of
        Inl e \<Rightarrow> Inl e
      | Inr v \<Rightarrow> (case column name iterator of Inl e \<Rightarrow> Inl e | Inr vs \<Rightarrow> Inr (v # vs)))"

text \<open>
  Method \<^verbatim>\<open>train\<close> up to the call of \<^verbatim>\<open>master_send_gradient\<close>. The result keeps the
  worker, the trained model, the local variable \<^verbatim>\<open>W\<close> (the weights of the model when
  \<^verbatim>\<open>fit\<close> starts), the gradient that was sent, and the coordinator after the request.
\<close>

record ('c, 'a) submitted =
  worker_after :: "('c, 'a) easgd_worker"
  trained_model :: "('c, 'a) keras_model"
  local_W :: "'a weights"
  gradient_sent :: "'a weights"
  coordinator_after :: "('c, 'a) easgd"

definition train_submit ::
  "('c, 'a::minus, 'v pyval) keras \<Rightarrow> ('c, 'a) easgd_worker \<Rightarrow> int \<Rightarrow> 'v row list \<Rightarrow>
   ('c, 'a) easgd \<Rightarrow> error + ('c, 'a) submitted" where
  "train_submit K self index iterator s =
     (case deserialize_keras_model K (worker_model self) of
        Inl e \<Rightarrow> Inl e
      | Inr model0 \<Rightarrow>
     (case column (worker_features_column self) iterator of
        Inl e \<Rightarrow> Inl e
      | Inr X \<Rightarrow>
     (case column (worker_label_column self) iterator of
        Inl e \<Rightarrow> Inl e
      | Inr Y \<Rightarrow>
         (let self = fetch_center_variable self s;
              model1 = compile model0;
              W = get_weights model1;
              model2 = fit K model1 X Y
          in case np_sub (get_weights model2) W of
               Inl e \<Rightarrow> Inl e
             | Inr gradient \<Rightarrow>
                 Inr \<lparr>worker_after = self, trained_model = model2, local_W = W,
                      gradient_sent = gradient,
                      coordinator_after = master_send_gradient self index gradient s\<rparr>))))"

text \<open>
  The loop \<^verbatim>\<open>while not self.master_is_ready(): time.sleep(1)\<close>. The environment lists,
  for every sleep, the requests of the other workers that the coordinator serves
  meanwhile. The result is the number of sleeps and the coordinator when the loop
  ends; when the flag is down and no request is left, the loop never ends (\<open>None\<close>).
\<close>

fun wait_ready ::
  "('c, 'a) easgd_worker \<Rightarrow> ('c, 'a) easgd \<Rightarrow> (int \<times> 'a weights) list list \<Rightarrow>
   (nat \<times> ('c, 'a) easgd) option" where
  "wait_ready self s [] = (if master_is_ready self s then Some (0, s) else None)"
| "wait_ready self s (reqs # env) =
     (if master_is_ready self s then Some (0, s)
      else map_option (\<lambda>(sleeps, s'). (Suc sleeps, s')) (wait_ready self (updates s reqs) env))"

text \<open>The whole method: it returns the empty iterator once the coordinator is ready.\<close>

definition train ::
  "('c, 'a::minus, 'v pyval) keras \<Rightarrow> ('c, 'a) easgd_worker \<Rightarrow> int \<Rightarrow> 'v row list \<Rightarrow>
   ('c, 'a) easgd \<Rightarrow> (int \<times> 'a weights) list list \<Rightarrow>
   error + ('v row list \<times> ('c, 'a) easgd) option" where
  "train K self index iterator s env =
     (case train_submit K self index iterator s of
        Inl e \<Rightarrow> Inl e
      | Inr r \<Rightarrow>
          Inr (map_option (\<lambda>(sleeps, s'). ([], s'))
                 (wait_ready (worker_after r) (coordinator_after r) env)))"

section \<open>The trainer\<close>

text \<open>
  A data set is the list of its partitions. \<^verbatim>\<open>repartition\<close> is Spark's: it returns a
  new data set with the same rows in the requested number of partitions (dealt out in
  turn here) and leaves the data set it is called on as it is; a number of partitions
  that is not positive is refused.
\<close>

definition repartition :: "int \<Rightarrow> 'r list list \<Rightarrow> error + 'r list list" where
  "repartition n data =
     (if n \<le> 0 then Inl IllegalArgumentError
      else Inr (map (\<lambda>i. map snd (filter (\<lambda>jr. fst jr mod nat n = i) (enumerate 0 (concat data))))
                  [0..<nat n]))"

text \<open>\<^verbatim>\<open>mapPartitionsWithIndex\<close> calls its function once per partition, with the index.\<close>

definition partition_tasks :: "'r list list \<Rightarrow> (int \<times> 'r list) list" where
  "partition_tasks data = zip (map int [0..<length data]) data"

text \<open>
  Method \<^verbatim>\<open>EASGD.train\<close> from the construction of the worker to the call of
  \<^verbatim>\<open>mapPartitionsWithIndex\<close>: the worker and the calls \<^verbatim>\<open>worker.train(index, partition)\<close>
  that the cluster is asked to run. The result of \<^verbatim>\<open>data.repartition\<close> is not bound to
  a name in the source.
\<close>

definition train_tasks ::
  "('c, 'a) easgd \<Rightarrow> 'r list list \<Rightarrow> error + ('c, 'a) easgd_worker \<times> (int \<times> 'r list) list" where
  "train_tasks self data =
     (let worker = EASGDWorker (master_model self) (features_column self) (label_column self) 1000
      in case repartition (num_workers self) data of
           Inl e \<Rightarrow> Inl e
         | Inr repartitioned \<Rightarrow> Inr (worker, partition_tasks data))"

section \<open>Update requests served by concurrent threads\<close>

text \<open>
  The service runs with \<^verbatim>\<open>threaded=True\<close>, so several requests to \<^verbatim>\<open>/update\<close> can be in
  progress at once. A thread serving one request is at one of the statements of the
  route; a switch between threads can happen between any two statements.
\<close>

datatype pc =
    SetReadyFalse
  | StoreGradient
  | TestCount
  | ProcessGradients
  | ClearGradients
  | SetReadyTrue
  | IncrementIteration
  | Return

record 'a update_thread =
  at :: pc
  thread_worker_id :: int
  thread_gradient :: "'a weights"

definition start_update :: "int \<times> 'a weights \<Rightarrow> 'a update_thread" where
  "start_update data = \<lparr>at = SetReadyFalse, thread_worker_id = fst data, thread_gradient = snd data\<rparr>"

text \<open>The statements that run inside \<^verbatim>\<open>with self.mutex\<close>: the two calls of \<^verbatim>\<open>set_ready\<close>.\<close>

fun holds_mutex :: "pc \<Rightarrow> bool" where
  "holds_mutex SetReadyFalse = True"
| "holds_mutex SetReadyTrue = True"
| "holds_mutex StoreGradient = False"
| "holds_mutex TestCount = False"
| "holds_mutex ProcessGradients = False"
| "holds_mutex ClearGradients = False"
| "holds_mutex IncrementIteration = False"
| "holds_mutex Return = False"

text \<open>The statements that read or write an attribute of the coordinator.\<close>

fun touches_state :: "pc \<Rightarrow> bool" where
  "touches_state Return = False"
| "touches_state p = True"

definition step_update ::
  "('c, 'a) easgd \<Rightarrow> 'a update_thread \<Rightarrow> ('c, 'a) easgd \<times> 'a update_thread" where
  "step_update self t =
     (case at t of
        SetReadyFalse \<Rightarrow> (set_ready self False, t\<lparr>at := StoreGradient\<rparr>)
      | StoreGradient \<Rightarrow>
          (self\<lparr>gradients := AList.update (thread_worker_id t) (thread_gradient t) (gradients self)\<rparr>,
           t\<lparr>at := TestCount\<rparr>)
      | TestCount \<Rightarrow>
          (self, t\<lparr>at := (if int (length (gradients self)) = num_workers self
                          then ProcessGradients else Return)\<rparr>)
      | ProcessGradients \<Rightarrow> (process_gradients self, t\<lparr>at := ClearGradients\<rparr>)
      | ClearGradients \<Rightarrow> (self\<lparr>gradients := []\<rparr>, t\<lparr>at := SetReadyTrue\<rparr>)
      | SetReadyTrue \<Rightarrow> (set_ready self True, t\<lparr>at := IncrementIteration\<rparr>)
      | IncrementIteration \<Rightarrow> (self\<lparr>iteration := iteration self + 1\<rparr>, t\<lparr>at := Return\<rparr>)
      | Return \<Rightarrow> (self, t))"

text \<open>A schedule names, step by step, the thread that executes its next statement.\<close>

fun interleave ::
  "('c, 'a) easgd \<Rightarrow> 'a update_thread list \<Rightarrow> nat list \<Rightarrow> ('c, 'a) easgd \<times> 'a update_thread list" where
  "interleave self ts [] = (self, ts)"
| "interleave self ts (i # schedule) =
     (if i < length ts
      then (case step_update self (ts ! i) of (self', t') \<Rightarrow> interleave self' (ts[i := t']) schedule)
      else interleave self ts schedule)"

section \<open>Example values\<close>

text \<open>A coordinator for two workers, as the constructor leaves it, and one for three.\<close>

definition two_workers :: "(unit, int) easgd" where
  "two_workers =
     \<lparr>master_model = \<lparr>d_model = (), d_weights = [[1, 2], [3]]\<rparr>,
      features_column = ''features'', label_column = ''label'', num_workers = 2,
      model = \<lparr>architecture = (), model_weights = [[1, 2], [3]]\<rparr>,
      gradients = [], ready = False, iteration = 0, printed = []\<rparr>"

definition three_workers :: "(unit, int) easgd" where
  "three_workers = two_workers\<lparr>num_workers := 3\<rparr>"

text \<open>The coordinator for two workers after worker 0 has sent a gradient.\<close>

definition one_pending :: "(unit, int) easgd" where
  "one_pending = snd (update two_workers (0, [[5, 5], [5]]))"

text \<open>A coordinator whose center variable is not the one of the master model.\<close>

definition moved_center :: "(unit, int) easgd" where
  "moved_center = two_workers\<lparr>model := \<lparr>architecture = (), model_weights = [[10, 20], [30]]\<rparr>\<rparr>"

text \<open>
  A stand-in for the library with one architecture, two weight tensors of sizes 2 and
  1, and an epoch of training that adds the number of rows to every weight.
\<close>

definition example_keras :: "(unit, int, int pyval) keras" where
  "example_keras =
     \<lparr>layer_sizes = (\<lambda>a. [2, 1]),
      initializer = (\<lambda>a. [[0, 0], [0]]),
      fit_epoch = (\<lambda>a w X Y. map (map (\<lambda>x. x + int (length X))) w)\<rparr>"

definition example_model :: "(unit, int) keras_model" where
  "example_model = \<lparr>architecture = (), model_weights = [[1, 2], [3]]\<rparr>"

definition example_worker :: "(unit, int) easgd_worker" where
  "example_worker = EASGDWorker \<lparr>d_model = (), d_weights = [[1, 2], [3]]\<rparr> ''features'' ''label'' 1000"

definition example_rows :: "int row list" where
  "example_rows =
     [[(''features'', ListV [Atom 1, Atom 2]), (''label'', Atom 0)],
      [(''features'', ListV [Atom 3, Atom 4]), (''label'', Atom 1)]]"

section \<open>Sequences of update requests\<close>

lemma updates_Cons: "updates s (d # reqs) = updates (snd (update s d)) reqs"
  by (simp add: updates_def)

lemma updates_snoc: "updates s (reqs @ [d]) = snd (update (updates s reqs) d)"
  by (simp add: updates_def)

lemma store_all_Cons: "store_all al (d # reqs) = store_all (AList.update (fst d) (snd d) al) reqs"
  by (simp add: store_all_def)

lemma length_update_le: "length (AList.update k v al) \<le> Suc (length al)"
  by (induction al) auto

lemma update_fresh: "k \<notin> fst ` set al \<Longrightarrow> AList.update k v al = al @ [(k, v)]"
  by (induction al) auto

lemma store_all_fresh:
  "distinct (map fst reqs) \<Longrightarrow> fst ` set al \<inter> fst ` set reqs = {} \<Longrightarrow> store_all al reqs = al @ reqs"
proof (induction reqs arbitrary: al)
  case Nil
  then show ?case by (simp add: store_all_def)
next
  case (Cons d reqs)
  have fresh: "fst d \<notin> fst ` set al" using Cons.prems(2) by auto
  have "store_all al (d # reqs) = store_all (al @ [d]) reqs"
    using fresh by (simp add: store_all_Cons update_fresh)
  also have "\<dots> = (al @ [d]) @ reqs"
    using Cons.prems by (intro Cons.IH) auto
  finally show ?case by simp
qed

text \<open>One request: either the count is not reached and the gradient stays pending, or it is.\<close>

lemma update_pending:
  "int (length (AList.update (fst d) (snd d) (gradients s))) \<noteq> num_workers s \<Longrightarrow>
   snd (update s d) = s\<lparr>gradients := AList.update (fst d) (snd d) (gradients s), ready := False\<rparr>"
  by (simp add: update_def store_gradient_def set_ready_def Let_def)

lemma update_complete:
  "int (length (AList.update (fst d) (snd d) (gradients s))) = num_workers s \<Longrightarrow>
   snd (update s d) = s\<lparr>gradients := [], ready := True, iteration := iteration s + 1,
                          printed := printed s @ [iteration s]\<rparr>"
  by (simp add: update_def store_gradient_def aggregate_def process_gradients_def set_ready_def Let_def)

text \<open>As long as fewer than \<^verbatim>\<open>num_workers\<close> entries can be pending, nothing is aggregated.\<close>

lemma updates_pending:
  "int (length (gradients s)) + int (length reqs) < num_workers s \<Longrightarrow>
   updates s reqs = s\<lparr>gradients := store_all (gradients s) reqs, ready := (reqs = [] \<and> ready s)\<rparr>"
proof (induction reqs arbitrary: s)
  case Nil
  then show ?case by (simp add: updates_def store_all_def)
next
  case (Cons d reqs)
  let ?al = "AList.update (fst d) (snd d) (gradients s)"
  let ?s1 = "s\<lparr>gradients := ?al, ready := False\<rparr>"
  have le: "length ?al \<le> Suc (length (gradients s))" by (rule length_update_le)
  then have "int (length ?al) \<noteq> num_workers s" using Cons.prems by simp
  then have step: "snd (update s d) = ?s1" by (rule update_pending)
  have "int (length (gradients ?s1)) + int (length reqs) < num_workers ?s1"
    using le Cons.prems by simp
  then have "updates ?s1 reqs = ?s1\<lparr>gradients := store_all (gradients ?s1) reqs, ready := (reqs = [] \<and> ready ?s1)\<rparr>"
    by (rule Cons.IH)
  then show ?case by (simp add: updates_Cons step store_all_Cons)
qed

text \<open>A whole window: as many requests as there are workers, from pairwise different workers.\<close>

lemma updates_window:
  assumes empty: "gradients s = []"
    and ids: "distinct (map fst reqs)"
    and n: "int (length reqs) = num_workers s"
    and pos: "1 \<le> num_workers s"
  shows "updates s reqs = s\<lparr>gradients := [], ready := True, iteration := iteration s + 1,
                              printed := printed s @ [iteration s]\<rparr>"
proof -
  from n pos have "reqs \<noteq> []" by auto
  then obtain front d where reqs: "reqs = front @ [d]" by (metis rev_exhaust)
  have front: "updates s front = s\<lparr>gradients := store_all (gradients s) front, ready := (front = [] \<and> ready s)\<rparr>"
    using n reqs empty by (intro updates_pending) simp
  have "store_all [] front = [] @ front"
    using ids reqs by (intro store_all_fresh) auto
  then have pend: "gradients (updates s front) = front" using front empty by simp
  have "fst d \<notin> fst ` set front" using ids reqs by auto
  then have "AList.update (fst d) (snd d) front = front @ [d]" by (simp add: update_fresh)
  then have "int (length (AList.update (fst d) (snd d) (gradients (updates s front)))) = num_workers (updates s front)"
    using pend n reqs front by simp
  then have "snd (update (updates s front) d) =
      (updates s front)\<lparr>gradients := [], ready := True, iteration := iteration (updates s front) + 1,
         printed := printed (updates s front) @ [iteration (updates s front)]\<rparr>"
    by (rule update_complete)
  then show ?thesis using front by (simp add: reqs updates_snoc)
qed

section \<open>Claims about the coordinator\<close>

text \<open>
  C1. Let the coordinator expect \<open>N \<ge> 1\<close> workers and hold no pending gradient. After
  the requests of \<open>N\<close> different workers, one for every id in \<open>[0, N)\<close> and in any
  order, no gradient is pending, the iteration counter is one higher, and the ready
  flag is set.
\<close>

theorem convergent_aggregation_count:
  assumes "1 \<le> num_workers s"
    and "gradients s = []"
    and "distinct (map fst reqs)"
    and "set (map fst reqs) = {0..<num_workers s}"
  shows "gradients (updates s reqs) = [] \<and>
         iteration (updates s reqs) = iteration s + 1 \<and>
         ready_route (updates s reqs)"
proof -
  have "length reqs = card (set (map fst reqs))"
    using assms(3) by (metis distinct_card length_map)
  then have "int (length reqs) = num_workers s"
    using assms(1,4) by simp
  then have "updates s reqs = s\<lparr>gradients := [], ready := True, iteration := iteration s + 1,
                                  printed := printed s @ [iteration s]\<rparr>"
    using assms by (intro updates_window) auto
  then show ?thesis by (simp add: ready_route_def get_ready_def)
qed

theorem convergent_aggregation_count_witness:
  "gradients (updates two_workers [(1, [[5, 5], [5]]), (0, [[7, 7], [7]])]) = [] \<and>
   iteration (updates two_workers [(1, [[5, 5], [5]]), (0, [[7, 7], [7]])]) = 1 \<and>
   ready_route (updates two_workers [(1, [[5, 5], [5]]), (0, [[7, 7], [7]])])"
proof -
  have ids: "{0..<2::int} = {1, 0}" by auto
  show ?thesis
    using convergent_aggregation_count [of two_workers "[(1, [[5, 5], [5]]), (0, [[7, 7], [7]])]"]
    by (simp add: two_workers_def ids)
qed

lemma length_update_present: "k \<in> fst ` set al \<Longrightarrow> length (AList.update k v al) = length al"
  by (induction al) auto

lemma map_of_store_all_other:
  "k \<notin> fst ` set reqs \<Longrightarrow> map_of (store_all al reqs) k = map_of al k"
proof (induction reqs arbitrary: al)
  case Nil
  then show ?case by (simp add: store_all_def)
next
  case (Cons d reqs)
  then have "map_of (store_all (AList.update (fst d) (snd d) al) reqs) k
           = map_of (AList.update (fst d) (snd d) al) k"
    by simp
  also have "\<dots> = map_of al k"
    using Cons.prems by (simp add: update_conv')
  finally show ?case by (simp add: store_all_Cons)
qed

lemma store_gradient_fields:
  "gradients (store_gradient s k v) = AList.update k v (gradients s)"
  "num_workers (store_gradient s k v) = num_workers s"
  by (simp_all add: store_gradient_def set_ready_def Let_def)

lemma update_cases:
  "snd (update s d) =
     (if int (length (gradients (store_gradient s (fst d) (snd d)))) = num_workers s
      then aggregate (store_gradient s (fst d) (snd d))
      else store_gradient s (fst d) (snd d))"
  by (simp add: update_def Let_def store_gradient_fields)

lemma update_ack: "fst (update s d) = ''OK''"
  by (simp add: update_def Let_def)

text \<open>
  C4. In a window of \<open>N\<close> requests from pairwise different workers that starts with no
  pending gradient, the route \<^verbatim>\<open>/ready\<close> answers false after each of the first
  \<open>N - 1\<close> requests, and true after the \<open>N\<close>-th.
\<close>

theorem readiness_gating:
  assumes "1 \<le> num_workers s"
    and "gradients s = []"
    and "distinct (map fst reqs)"
    and "int (length reqs) = num_workers s"
  shows "(\<forall>k. 1 \<le> k \<and> k < length reqs \<longrightarrow> \<not> ready_route (updates s (take k reqs))) \<and>
         ready_route (updates s reqs)"
proof (intro conjI allI impI)
  fix k
  assume k: "1 \<le> k \<and> k < length reqs"
  then have "int (length (gradients s)) + int (length (take k reqs)) < num_workers s"
    using assms(2,4) by simp
  then have "updates s (take k reqs) =
      s\<lparr>gradients := store_all (gradients s) (take k reqs), ready := (take k reqs = [] \<and> ready s)\<rparr>"
    by (rule updates_pending)
  moreover have "take k reqs \<noteq> []" using k by auto
  ultimately show "\<not> ready_route (updates s (take k reqs))"
    by (simp add: ready_route_def get_ready_def)
next
  have "updates s reqs = s\<lparr>gradients := [], ready := True, iteration := iteration s + 1,
                              printed := printed s @ [iteration s]\<rparr>"
    using assms by (intro updates_window) auto
  then show "ready_route (updates s reqs)"
    by (simp add: ready_route_def get_ready_def)
qed

theorem readiness_gating_witness:
  "\<not> ready_route (updates three_workers (take 1 [(2, [[1, 1], [1]]), (0, [[2, 2], [2]]), (1, [[3, 3], [3]])])) \<and>
   \<not> ready_route (updates three_workers (take 2 [(2, [[1, 1], [1]]), (0, [[2, 2], [2]]), (1, [[3, 3], [3]])])) \<and>
   ready_route (updates three_workers [(2, [[1, 1], [1]]), (0, [[2, 2], [2]]), (1, [[3, 3], [3]])])"
proof -
  let ?reqs = "[(2::int, [[1, 1], [1]]), (0, [[2, 2], [2]]), (1, [[3, 3], [3::int]])]"
  have g: "(\<forall>k. 1 \<le> k \<and> k < length ?reqs \<longrightarrow> \<not> ready_route (updates three_workers (take k ?reqs))) \<and>
         ready_route (updates three_workers ?reqs)"
    using readiness_gating [of three_workers ?reqs]
    by (simp add: three_workers_def two_workers_def)
  have k1: "\<not> ready_route (updates three_workers (take 1 ?reqs))"
    using g [THEN conjunct1, THEN spec, of 1] by simp
  have k2: "\<not> ready_route (updates three_workers (take 2 ?reqs))"
    using g [THEN conjunct1, THEN spec, of 2] by simp
  show ?thesis using k1 k2 g by blast
qed

lemma update_center: "center_variable (snd (update s d)) = center_variable s"
  by (simp add: update_def store_gradient_def aggregate_def process_gradients_def set_ready_def
      center_variable_def Let_def)

text \<open>
  C3, as the code has it. When a request completes the set of pending gradients,
  \<^verbatim>\<open>process_gradients\<close> only prints the number of the iteration: the center variable
  after the request is the one before it, and the pending gradients are dropped.
\<close>

theorem aggregation_keeps_center_variable:
  assumes "int (length (gradients (store_gradient s (fst d) (snd d)))) = num_workers s"
  shows "center_variable (snd (update s d)) = center_variable s \<and>
         gradients (snd (update s d)) = [] \<and>
         printed (snd (update s d)) = printed s @ [iteration s]"
  using assms
  by (simp add: update_def store_gradient_def aggregate_def process_gradients_def set_ready_def
      center_variable_def Let_def)

theorem aggregation_keeps_center_variable_witness:
  "center_variable (snd (update (snd (update two_workers (0, [[5, 5], [5]]))) (1, [[7, 7], [7]])))
     = center_variable (snd (update two_workers (0, [[5, 5], [5]]))) \<and>
   gradients (snd (update (snd (update two_workers (0, [[5, 5], [5]]))) (1, [[7, 7], [7]]))) = [] \<and>
   printed (snd (update (snd (update two_workers (0, [[5, 5], [5]]))) (1, [[7, 7], [7]]))) = [0]"
  using aggregation_keeps_center_variable [of "snd (update two_workers (0, [[5, 5], [5]]))" "(1, [[7, 7], [7]])"]
  by (simp add: update_def store_gradient_def aggregate_def process_gradients_def set_ready_def
      two_workers_def Let_def)

text \<open>
  C3 as stated asks that the center variable differs from its previous value for some
  completing request. It never does; in particular not in the run with two workers
  whose gradients are not zero.
\<close>

theorem aggregation_changes_center_counterexample:
  "center_variable (updates two_workers [(0, [[5, 5], [5]]), (1, [[7, 7], [7]])]) = [[1, 2], [3]] \<and>
   \<not> (\<exists>(s :: (unit, int) easgd) d.
         int (length (gradients (store_gradient s (fst d) (snd d)))) = num_workers s \<and>
         center_variable (snd (update s d)) \<noteq> center_variable s)"
  by (simp add: update_center updates_def)
     (simp add: center_variable_def get_weights_def two_workers_def)

text \<open>
  C5. A worker \<open>w\<close> that already has a pending gradient sends another one while the
  window is open. The request is acknowledged, the number of pending gradients stays
  the same, the entry of \<open>w\<close> becomes the new gradient, nothing is aggregated and the
  ready flag is down. When a later request of another worker completes the set, the
  dictionary handed to the aggregation holds the new gradient of \<open>w\<close>. A request
  with any worker id whatsoever is acknowledged and stored; an id that is not pending
  is appended.
\<close>

theorem duplicate_submission_overwrites:
  assumes pending: "map_of (gradients s) w = Some g_old"
    and below: "int (length (gradients s)) + int (length rest) < num_workers s"
    and others: "w \<notin> fst ` set rest" "fst d \<noteq> w"
    and fires: "int (length (gradients (store_gradient (updates (snd (update s (w, g_new))) rest) (fst d) (snd d))))
                  = num_workers s"
  shows "fst (update s (w, g_new)) = ''OK'' \<and>
         length (gradients (snd (update s (w, g_new)))) = length (gradients s) \<and>
         map_of (gradients (snd (update s (w, g_new)))) = (map_of (gradients s))(w \<mapsto> g_new) \<and>
         iteration (snd (update s (w, g_new))) = iteration s \<and>
         \<not> ready_route (snd (update s (w, g_new))) \<and>
         map_of (gradients (store_gradient (updates (snd (update s (w, g_new))) rest) (fst d) (snd d))) w
           = Some g_new \<and>
         snd (update (updates (snd (update s (w, g_new))) rest) d)
           = aggregate (store_gradient (updates (snd (update s (w, g_new))) rest) (fst d) (snd d)) \<and>
         (\<forall>w' g'. fst (update s (w', g')) = ''OK'' \<and>
                  map_of (gradients (store_gradient s w' g')) w' = Some g' \<and>
                  (w' \<notin> fst ` set (gradients s) \<longrightarrow>
                     gradients (store_gradient s w' g') = gradients s @ [(w', g')]))"
proof -
  let ?s1 = "snd (update s (w, g_new))"
  let ?s2 = "updates ?s1 rest"
  have present: "w \<in> fst ` set (gradients s)"
    using pending by (metis map_of_eq_None_iff option.distinct(1))
  then have len: "length (AList.update w g_new (gradients s)) = length (gradients s)"
    by (rule length_update_present)
  then have "int (length (AList.update (fst (w, g_new)) (snd (w, g_new)) (gradients s))) \<noteq> num_workers s"
    using below by simp
  then have s1: "?s1 = s\<lparr>gradients := AList.update w g_new (gradients s), ready := False\<rparr>"
    using update_pending [of "(w, g_new)" s] by simp
  have "int (length (gradients ?s1)) + int (length rest) < num_workers ?s1"
    using s1 len below by simp
  then have s2: "?s2 = ?s1\<lparr>gradients := store_all (gradients ?s1) rest, ready := (rest = [] \<and> ready ?s1)\<rparr>"
    by (rule updates_pending)
  have "map_of (gradients ?s2) w = map_of (gradients ?s1) w"
    using s2 others(1) by (simp add: map_of_store_all_other)
  then have latest: "map_of (gradients (store_gradient ?s2 (fst d) (snd d))) w = Some g_new"
    using others(2) s1 by (simp add: store_gradient_fields update_conv')
  have "num_workers ?s2 = num_workers s" using s1 s2 by simp
  then have agg: "snd (update ?s2 d) = aggregate (store_gradient ?s2 (fst d) (snd d))"
    using fires by (simp add: update_cases)
  have unexpected: "\<forall>w' g'. fst (update s (w', g')) = ''OK'' \<and>
                  map_of (gradients (store_gradient s w' g')) w' = Some g' \<and>
                  (w' \<notin> fst ` set (gradients s) \<longrightarrow>
                     gradients (store_gradient s w' g') = gradients s @ [(w', g')])"
    by (simp add: update_ack store_gradient_fields update_conv' update_fresh)
  show ?thesis
    using s1 len latest agg unexpected
    by (simp add: update_ack update_conv' ready_route_def get_ready_def)
qed

theorem duplicate_submission_overwrites_witness:
  "length (gradients (snd (update one_pending (0, [[6, 6], [6]])))) = 1 \<and>
   map_of (gradients (snd (update one_pending (0, [[6, 6], [6]])))) 0 = Some [[6, 6], [6]] \<and>
   iteration (snd (update one_pending (0, [[6, 6], [6]]))) = 0 \<and>
   \<not> ready_route (snd (update one_pending (0, [[6, 6], [6]]))) \<and>
   map_of (gradients (store_gradient (updates (snd (update one_pending (0, [[6, 6], [6]]))) [])
                         1 [[7, 7], [7]])) 0 = Some [[6, 6], [6]] \<and>
   snd (update (updates (snd (update one_pending (0, [[6, 6], [6]]))) []) (1, [[7, 7], [7]]))
     = aggregate (store_gradient (updates (snd (update one_pending (0, [[6, 6], [6]]))) [])
                    1 [[7, 7], [7]]) \<and>
   fst (update one_pending (9, [[7, 7], [7]])) = ''OK'' \<and>
   gradients (store_gradient one_pending 9 [[7, 7], [7]]) = [(0, [[5, 5], [5]]), (9, [[7, 7], [7]])]"
  using duplicate_submission_overwrites
          [of one_pending 0 "[[5, 5], [5]]" "[]" "(1, [[7, 7], [7]])" "[[6, 6], [6]]"]
  by (simp add: one_pending_def two_workers_def update_def updates_def store_gradient_def
      aggregate_def process_gradients_def set_ready_def ready_route_def get_ready_def Let_def)

section \<open>Claims about the model snapshot\<close>

text \<open>
  C8. For a model whose weight tensors fit its own architecture, deserializing the
  serialized model succeeds and gives a model with the same weight tensors.
\<close>

theorem serialize_roundtrip:
  assumes "map length (get_weights m) = layer_sizes K (architecture m)"
  shows "\<exists>m'. deserialize_keras_model K (serialize_keras_model m) = Inr m' \<and>
              get_weights m' = get_weights m"
  using assms
  by (simp add: deserialize_keras_model_def serialize_keras_model_def model_from_json_def
      set_weights_def to_json_def get_weights_def Let_def)

theorem serialize_roundtrip_witness:
  "\<exists>m'. deserialize_keras_model example_keras (serialize_keras_model example_model) = Inr m' \<and>
        get_weights m' = [[1, 2], [3]]"
  using serialize_roundtrip [of example_model example_keras]
  by (simp add: example_model_def example_keras_def get_weights_def)

section \<open>Claims about the worker\<close>

lemma deserialize_Inr:
  "deserialize_keras_model K d = Inr m \<Longrightarrow> get_weights m = d_weights d \<and> architecture m = d_model d"
  by (auto simp: deserialize_keras_model_def model_from_json_def set_weights_def get_weights_def
      Let_def split: if_splits)

lemma deserialize_fits:
  "map length (d_weights d) = layer_sizes K (d_model d) \<Longrightarrow>
   deserialize_keras_model K d = Inr \<lparr>architecture = d_model d, model_weights = d_weights d\<rparr>"
  by (simp add: deserialize_keras_model_def model_from_json_def set_weights_def Let_def)

text \<open>
  C9. Let the snapshot of the worker fit its architecture, let every row have the
  feature and the label column, and let an epoch of training keep the shapes of the
  weights. Then the worker reaches the request to the coordinator, and the gradient it
  sends is, tensor by tensor and entry by entry, the weights after training minus the
  weights the model held before the center variable was fetched, which are the
  weights of the snapshot.
\<close>

theorem gradient_is_weight_difference:
  assumes fits: "map length (d_weights (worker_model self)) = layer_sizes K (d_model (worker_model self))"
    and X: "column (worker_features_column self) iterator = Inr X"
    and Y: "column (worker_label_column self) iterator = Inr Y"
    and shapes: "map length (fit_epoch K (d_model (worker_model self)) (d_weights (worker_model self)) X Y)
                   = map length (d_weights (worker_model self))"
  shows "\<exists>r. train_submit K self index iterator s = Inr r \<and>
             local_W r = d_weights (worker_model self) \<and>
             get_weights (trained_model r)
               = fit_epoch K (d_model (worker_model self)) (d_weights (worker_model self)) X Y \<and>
             gradient_sent r
               = map2 (map2 (-)) (get_weights (trained_model r)) (d_weights (worker_model self)) \<and>
             coordinator_after r = snd (update s (index, gradient_sent r))"
  using X Y shapes
  by (simp add: train_submit_def deserialize_fits [OF fits] fetch_center_variable_def compile_def
      fit_def get_weights_def np_sub_def master_send_gradient_def Let_def)

theorem gradient_is_weight_difference_witness:
  "\<exists>r. train_submit example_keras example_worker 0 example_rows moved_center = Inr r \<and>
       get_weights (trained_model r) = [[3, 4], [5]] \<and>
       gradient_sent r = [[2, 2], [2]] \<and>
       coordinator_after r = snd (update moved_center (0, [[2, 2], [2]]))"
proof -
  have "\<exists>r. train_submit example_keras example_worker 0 example_rows moved_center = Inr r \<and>
          local_W r = [[1, 2], [3]] \<and>
          get_weights (trained_model r) = [[3, 4], [5]] \<and>
          gradient_sent r = map2 (map2 (-)) (get_weights (trained_model r)) [[1, 2], [3]] \<and>
          coordinator_after r = snd (update moved_center (0, gradient_sent r))"
    using gradient_is_weight_difference
            [of example_worker example_keras example_rows
                "[ListV [Atom 1, Atom 2], ListV [Atom 3, Atom 4]]" "[Atom 0, Atom 1]" 0 moved_center]
    by (simp add: example_worker_def EASGDWorker_def example_keras_def example_rows_def row_item_def)
  then obtain r where r: "train_submit example_keras example_worker 0 example_rows moved_center = Inr r"
      "get_weights (trained_model r) = [[3, 4], [5]]"
      "gradient_sent r = map2 (map2 (-)) (get_weights (trained_model r)) [[1, 2], [3]]"
      "coordinator_after r = snd (update moved_center (0, gradient_sent r))"
    by blast
  have "gradient_sent r = [[2, 2], [2]]" using r(2,3) by simp
  then show ?thesis using r by simp
qed

text \<open>
  C2 fails on the code. The worker stores the fetched center variable in its attribute
  and never hands it to the model: with a coordinator whose center variable is
  \<open>[[10, 20], [30]]\<close> and a worker built from a snapshot with the weights
  \<open>[[1, 2], [3]]\<close>, training starts from \<open>[[1, 2], [3]]\<close>.
\<close>

theorem fetched_center_variable_unused:
  "map_sum id (\<lambda>r. (worker_center_variable (worker_after r), local_W r))
      (train_submit example_keras example_worker 0 example_rows moved_center)
     = Inr (Some [[10, 20], [30]], [[1, 2], [3]]) \<and>
   center_variable moved_center = [[10, 20], [30]]"
  by (simp add: train_submit_def deserialize_keras_model_def model_from_json_def set_weights_def
      example_worker_def EASGDWorker_def example_keras_def example_rows_def row_item_def
      fetch_center_variable_def compile_def fit_def get_weights_def np_sub_def
      master_send_gradient_def center_variable_def moved_center_def two_workers_def Let_def)

section \<open>Claims about the trainer\<close>

text \<open>
  C7 fails on the code. The repartitioned data set is dropped and the workers are
  called on the partitions of the data set as it came: with three partitions and two
  expected workers, \<^verbatim>\<open>worker.train\<close> is called with the indices 0, 1 and 2, although
  the repartitioned data set has two partitions.
\<close>

theorem train_ignores_repartition:
  "map_sum id (map fst \<circ> snd) (train_tasks two_workers [[''a''], [''b''], [''c'']]) = Inr [0, 1, 2] \<and>
   map_sum id length (repartition (num_workers two_workers) [[''a''], [''b''], [''c'']]) = Inr 2"
  by (simp add: train_tasks_def repartition_def partition_tasks_def two_workers_def Let_def
      upt_conv_Cons del: upt_Suc)

section \<open>Claims about concurrent requests\<close>

text \<open>A thread that is never interrupted serves the request as the route does.\<close>

lemma interleave_alone: "fst (interleave s [start_update d] (replicate 7 0)) = snd (update s d)"
  by (simp add: numeral_eq_Suc step_update_def start_update_def update_def store_gradient_def
      aggregate_def Let_def)

text \<open>
  C6 fails on the code. The route \<^verbatim>\<open>/update\<close> writes the dictionary of gradients and
  the iteration counter outside the mutex. Two requests for a coordinator of two
  workers, interleaved so that both test the count after both gradients are stored,
  both run the body of the conditional: the iteration counter ends at 2 and iteration
  0 is printed twice, where the same requests one after the other end at 1.
\<close>

theorem unlocked_update_interleaving:
  "touches_state StoreGradient \<and> \<not> holds_mutex StoreGradient \<and>
   touches_state IncrementIteration \<and> \<not> holds_mutex IncrementIteration \<and>
   iteration (fst (interleave two_workers
                     [start_update (0, [[5, 5], [5]]), start_update (1, [[7, 7], [7]])]
                     [0, 0, 1, 1, 0, 1, 0, 1, 0, 1, 0, 1, 0, 1])) = 2 \<and>
   printed (fst (interleave two_workers
                     [start_update (0, [[5, 5], [5]]), start_update (1, [[7, 7], [7]])]
                     [0, 0, 1, 1, 0, 1, 0, 1, 0, 1, 0, 1, 0, 1])) = [0, 0] \<and>
   iteration (updates two_workers [(0, [[5, 5], [5]]), (1, [[7, 7], [7]])]) = 1"
  by (simp add: step_update_def start_update_def two_workers_def set_ready_def
      process_gradients_def updates_def update_def store_gradient_def aggregate_def Let_def)

section \<open>Claims about rows\<close>

lemma dict_distinct: "distinct (map fst al) \<Longrightarrow> dict al = al"
  using store_all_fresh [of al "[]"] by (simp add: dict_def)

lemma conv_plain: "plain x \<Longrightarrow> conv x = x"
proof (induction x)
  case (ListV xs)
  then have "map conv xs = xs"
    by (intro map_idI) (simp add: list_all_iff)
  then show ?case by simp
next
  case (DictV kvs)
  have "map (map_prod id conv) kvs = kvs"
  proof (rule map_idI)
    fix kv assume kv: "kv \<in> set kvs"
    then have "plain (snd kv)" using DictV.prems by (auto simp: list_all_iff)
    then have "conv (snd kv) = snd kv" using DictV.IH kv
      by (metis prod.collapse prod_set_simps(2) singletonI)
    then show "map_prod id conv kv = kv" by (cases kv) simp
  qed
  then show ?case using DictV.prems by (simp add: dict_distinct)
qed simp_all

lemma asDict_recursive:
  "distinct (map fst r) \<Longrightarrow> asDict r True = map (apsnd conv) r"
proof -
  assume d: "distinct (map fst r)"
  have z: "zip (map fst r) (map (conv \<circ> snd) r) = map (apsnd conv) r"
    by (induction r) auto
  have "map fst (map (apsnd conv) r) = map fst r" by (induction r) auto
  then show ?thesis using d by (simp add: asDict_def z dict_distinct)
qed

lemma map_of_apsnd: "map_of (map (apsnd f) r) k = map_option f (map_of r k)"
  by (induction r) auto

lemma map_of_Row_kwargs: "map_of (Row_kwargs d) = map_of d"
proof
  fix n
  show "map_of (Row_kwargs d) n = map_of d n"
  proof (cases "n \<in> fst ` set d")
    case True
    then obtain y where "map_of d n = Some y"
      by (metis map_of_eq_None_iff not_None_eq)
    then show ?thesis using True
      by (simp add: Row_kwargs_def map_of_map_restrict restrict_map_def)
  next
    case False
    then have "map_of d n = None" by (simp add: map_of_eq_None_iff)
    then show ?thesis using False
      by (simp add: Row_kwargs_def map_of_map_restrict restrict_map_def)
  qed
qed

lemma fields_Row_kwargs: "fst ` set (Row_kwargs d) = fst ` set d"
  by (simp add: Row_kwargs_def image_image)

lemma new_dataframe_row_lookup:
  assumes "distinct (map fst old_row)"
  shows "map_of (new_dataframe_row old_row c v) k
           = (if k = c then Some v else map_option conv (map_of old_row k))"
    and "set (map fst (new_dataframe_row old_row c v)) = insert c (set (map fst old_row))"
proof -
  let ?d0 = "map (apsnd conv) old_row"
  let ?d1 = "AList.update c v ?d0"
  have keys: "map fst ?d0 = map fst old_row" by (induction old_row) auto
  have "distinct (map fst ?d1)" using assms keys by (simp add: distinct_update)
  then have new: "new_dataframe_row old_row c v = Row_kwargs ?d1"
    using assms by (simp add: new_dataframe_row_def asDict_recursive dict_distinct Let_def)
  show "map_of (new_dataframe_row old_row c v) k
           = (if k = c then Some v else map_option conv (map_of old_row k))"
    by (simp add: new map_of_Row_kwargs update_conv' map_of_apsnd)
  have "fst ` set ?d1 = insert c (fst ` set ?d0)" by (simp add: dom_update)
  also have "fst ` set ?d0 = set (map fst old_row)" using keys by (metis set_map)
  finally show "set (map fst (new_dataframe_row old_row c v)) = insert c (set (map fst old_row))"
    by (simp add: new fields_Row_kwargs)
qed

text \<open>
  C10, as the code has it. For a row with pairwise different field names, the new row
  holds the given value in the named column; every other column holds what
  \<^verbatim>\<open>asDict(True)\<close> makes of the old value, which is the old value itself when it holds
  no nested row; a column the old row does not have is missing in the new row too;
  the fields of the new row are those of the old row and the named column. The old
  row is an argument of a function and is as it was.
\<close>

theorem new_dataframe_row_frame:
  assumes "distinct (map fst old_row)"
  shows "row_item (new_dataframe_row old_row c v) c = Inr v \<and>
         (\<forall>c'. c' \<noteq> c \<longrightarrow>
            row_item (new_dataframe_row old_row c v) c' = map_sum id conv (row_item old_row c')) \<and>
         (\<forall>c' x. c' \<noteq> c \<and> row_item old_row c' = Inr x \<and> plain x \<longrightarrow>
            row_item (new_dataframe_row old_row c v) c' = Inr x) \<and>
         set (map fst (new_dataframe_row old_row c v)) = insert c (set (map fst old_row))"
proof (intro conjI allI impI)
  show "row_item (new_dataframe_row old_row c v) c = Inr v"
    by (simp add: row_item_def new_dataframe_row_lookup(1) [OF assms])
next
  fix c' assume "c' \<noteq> c"
  then show "row_item (new_dataframe_row old_row c v) c' = map_sum id conv (row_item old_row c')"
    by (simp add: row_item_def new_dataframe_row_lookup(1) [OF assms] split: option.splits)
next
  fix c' x assume "c' \<noteq> c \<and> row_item old_row c' = Inr x \<and> plain x"
  then show "row_item (new_dataframe_row old_row c v) c' = Inr x"
    by (auto simp: row_item_def new_dataframe_row_lookup(1) [OF assms] conv_plain
        split: option.splits)
next
  show "set (map fst (new_dataframe_row old_row c v)) = insert c (set (map fst old_row))"
    by (rule new_dataframe_row_lookup(2) [OF assms])
qed

theorem new_dataframe_row_frame_witness:
  "row_item (new_dataframe_row [(''label'', Atom (3::int)), (''features'', ListV [Atom 1, Atom 2])]
               ''label_vectorized'' (ListV [Atom 0, Atom 1])) ''label_vectorized''
     = Inr (ListV [Atom 0, Atom 1]) \<and>
   row_item (new_dataframe_row [(''label'', Atom (3::int)), (''features'', ListV [Atom 1, Atom 2])]
               ''label_vectorized'' (ListV [Atom 0, Atom 1])) ''features''
     = Inr (ListV [Atom 1, Atom 2]) \<and>
   row_item (new_dataframe_row [(''label'', Atom (3::int)), (''features'', ListV [Atom 1, Atom 2])]
               ''label_vectorized'' (ListV [Atom 0, Atom 1])) ''missing''
     = Inl (RowValueError ''missing'') \<and>
   set (map fst (new_dataframe_row [(''label'', Atom (3::int)), (''features'', ListV [Atom 1, Atom 2])]
               ''label_vectorized'' (ListV [Atom 0, Atom 1])))
     = {''label_vectorized'', ''label'', ''features''}"
proof -
  let ?old = "[(''label'', Atom (3::int)), (''features'', ListV [Atom 1, Atom 2])]"
  let ?new = "new_dataframe_row ?old ''label_vectorized'' (ListV [Atom 0, Atom 1])"
  have d: "distinct (map fst ?old)" by simp
  note t = new_dataframe_row_frame [OF d, of "''label_vectorized''" "ListV [Atom 0, Atom 1]"]
  have 1: "row_item ?new ''label_vectorized'' = Inr (ListV [Atom 0, Atom 1])"
    using t by blast
  have "row_item ?old ''features'' = Inr (ListV [Atom 1, Atom 2]) \<and> plain (ListV [Atom 1, Atom (2::int)])"
    by (simp add: row_item_def)
  then have 2: "row_item ?new ''features'' = Inr (ListV [Atom 1, Atom 2])"
    using t [THEN conjunct2, THEN conjunct2, THEN conjunct1, THEN spec, THEN spec,
             of "''features''" "ListV [Atom 1, Atom 2]"]
    by simp
  have 3: "row_item ?new ''missing'' = Inl (RowValueError ''missing'')"
    using t [THEN conjunct2, THEN conjunct1, THEN spec, of "''missing''"]
    by (simp add: row_item_def)
  have 4: "set (map fst ?new) = {''label_vectorized'', ''label'', ''features''}"
    using t by simp
  show ?thesis using 1 2 3 4 by blast
qed

text \<open>
  C10 as stated fails for a row that holds a nested row: the new row holds a dictionary
  in that column.
\<close>

theorem new_dataframe_row_nested_row_counterexample:
  "row_item (new_dataframe_row [(''features'', RowV [(''x'', Atom (1::int))])] ''label'' (Atom 2))
            ''features''
     = Inr (DictV [(Str ''x'', Atom 1)]) \<and>
   row_item [(''features'', RowV [(''x'', Atom (1::int))])] ''features''
     = Inr (RowV [(''x'', Atom 1)]) \<and>
   row_item (new_dataframe_row [(''features'', RowV [(''x'', Atom (1::int))])] ''label'' (Atom 2))
            ''features''
     \<noteq> row_item [(''features'', RowV [(''x'', Atom (1::int))])] ''features''"
  by (simp add: new_dataframe_row_def asDict_def dict_def store_all_def Row_kwargs_def
      row_item_def Let_def)

section \<open>The examples against the constructor and the worker's loop\<close>

text \<open>The example coordinator is what the constructor returns for the example model.\<close>

lemma two_workers_constructed:
  "EASGD example_keras example_model ''features'' ''label'' 2 = Inr two_workers"
  by (simp add: EASGD_def serialize_keras_model_def deserialize_keras_model_def
      model_from_json_def set_weights_def to_json_def get_weights_def example_keras_def
      example_model_def two_workers_def Let_def)

text \<open>
  A worker that is the only one expected returns at its first look at the flag. One of
  two expected workers sleeps until the request of the other has been served, and for
  ever when that request never comes.
\<close>

lemma train_single_worker_returns:
  "map_sum id (map_option fst)
     (train example_keras example_worker 0 example_rows (two_workers\<lparr>num_workers := 1\<rparr>) [])
   = Inr (Some [])"
  by (simp add: train_def train_submit_def deserialize_keras_model_def model_from_json_def
      set_weights_def example_worker_def EASGDWorker_def example_keras_def example_rows_def
      row_item_def fetch_center_variable_def compile_def fit_def get_weights_def np_sub_def
      master_send_gradient_def master_is_ready_def ready_route_def get_ready_def update_def
      store_gradient_def aggregate_def process_gradients_def set_ready_def two_workers_def
      Let_def)

lemma train_waits_for_the_other_worker:
  "train example_keras example_worker 0 example_rows two_workers [] = Inr None \<and>
   map_sum id (map_option fst)
     (train example_keras example_worker 0 example_rows two_workers [[], [(1, [[7, 7], [7]])]])
   = Inr (Some [])"
  by (simp add: train_def train_submit_def deserialize_keras_model_def model_from_json_def
      set_weights_def example_worker_def EASGDWorker_def example_keras_def example_rows_def
      row_item_def fetch_center_variable_def compile_def fit_def get_weights_def np_sub_def
      master_send_gradient_def master_is_ready_def ready_route_def get_ready_def update_def
      updates_def store_gradient_def aggregate_def process_gradients_def set_ready_def
      two_workers_def Let_def)

end
